theory Spec2Isabelle
  imports Complex_Main "HOL-Library.Sublist"
begin

section \<open>Time-of-use bucket tracker (time\_of\_use\_calculator.py)\<close>

subsection \<open>Data model\<close>

text \<open>
  The fields of Python's \<open>datetime\<close> that the program reads. \<open>weekday\<close> is the value
  of \<open>now.weekday()\<close>: Monday is 0 and Sunday is 6.
\<close>

record datetime =
  year :: int
  month :: int
  day :: int
  hour :: int
  minute :: int
  weekday :: int

text \<open>The ranges that Python's \<open>datetime\<close> guarantees for these fields.\<close>

definition valid_fields :: "datetime \<Rightarrow> bool" where
  "valid_fields now \<longleftrightarrow>
     1 \<le> year now \<and> year now \<le> 9999 \<and>
     1 \<le> month now \<and> month now \<le> 12 \<and>
     1 \<le> day now \<and> day now \<le> 31 \<and>
     0 \<le> hour now \<and> hour now \<le> 23 \<and>
     0 \<le> minute now \<and> minute now \<le> 59 \<and>
     0 \<le> weekday now \<and> weekday now \<le> 6"

text \<open>\<open>now.date()\<close>: the calendar date (year, month, day).\<close>

type_synonym date = "int \<times> int \<times> int"

definition date :: "datetime \<Rightarrow> date" where
  "date now = (year now, month now, day now)"

text \<open>
  The \<open>holidays\<close> package is external. \<open>holidays.US(years=y)\<close> is a parameter of the
  model: for a year it either raises, or returns the set of holiday dates. The program
  catches no exception, so a raise inside the package leaves \<open>is_holiday\<close> and its caller.
\<close>

datatype error = HolidayLookupError

type_synonym holiday_package = "int \<Rightarrow> error + date set"

subsection \<open>\<open>is_holiday\<close>\<close>

definition is_holiday :: "holiday_package \<Rightarrow> datetime \<Rightarrow> error + bool" where
  "is_holiday US now =
     (case US (year now) of
        Inl e \<Rightarrow> Inl e
      | Inr us_holidays \<Rightarrow> Inr (date now \<in> us_holidays))"

subsection \<open>\<open>get_tou_bucket\<close>\<close>

text \<open>
  \<open>t = now.hour + now.minute / 60.0\<close> is a float in the source and an exact rational
  here. Every threshold it is compared with (6, 10, 14, 16, 21) is an integer, exactly
  representable, and for fields in range \<open>minute / 60.0\<close> is at most \<open>59/60\<close>, so the
  rounded sum never reaches the next integer: each comparison has the same outcome
  as on the exact value.

  Python's \<open>or\<close> is short-circuit: \<open>is_holiday\<close> is called only when the weekday is
  below 5.
\<close>

definition get_tou_bucket :: "holiday_package \<Rightarrow> datetime \<Rightarrow> error + string" where
  "get_tou_bucket US now =
     (let t = (of_int (hour now) + of_int (minute now) / 60 :: rat) in
      case (if weekday now \<ge> 5 then Inr True else is_holiday US now) of
        Inl e \<Rightarrow> Inl e
      | Inr weekend_logic \<Rightarrow>
          if weekend_logic then
            (if t < 14 then Inr ''Super Off-Peak (Weekend/Holiday)''
             else if t < 16 then Inr ''Off-Peak (Weekend/Holiday)''
             else if t < 21 then Inr ''On-Peak (Weekend/Holiday)''
             else Inr ''Off-Peak (Weekend/Holiday)'')
          else
            (if t < 6 then Inr ''Super Off-Peak (Weekday)''
             else if t < 16 then
               (if month now \<in> {3, 4} \<and> 10 \<le> t \<and> t < 14
                then Inr ''Extra Off-Peak (Mar/Apr, Weekday)''
                else Inr ''Off-Peak (Weekday)'')
             else if t < 21 then Inr ''On-Peak (Weekday)''
             else Inr ''Off-Peak (Weekday)''))"

subsection \<open>\<open>get_theme_for_bucket\<close>\<close>

text \<open>Python's \<open>sub in s\<close> on strings: \<open>sub\<close> occurs in \<open>s\<close> as a contiguous block.\<close>

fun str_contains :: "string \<Rightarrow> string \<Rightarrow> bool" where
  "str_contains sub [] = (sub = [])"
| "str_contains sub (c # cs) = (prefix sub (c # cs) \<or> str_contains sub cs)"

text \<open>
  The returned dict has the two keys \<open>bg_color\<close> and \<open>emoji\<close>. The emoji are given
  by their UTF-8 bytes: U+1F6AB (no entry sign) and U+2705 (check mark).
\<close>

record theme =
  bg_color :: string
  emoji :: string

definition get_theme_for_bucket :: "string \<Rightarrow> theme" where
  "get_theme_for_bucket bucket =
     (if str_contains ''On-Peak'' bucket
      then \<lparr>bg_color = ''#f0e5d8'', emoji = [CHR 0xF0, CHR 0x9F, CHR 0x9A, CHR 0xAB]\<rparr>
      else \<lparr>bg_color = ''#e0f7fa'', emoji = [CHR 0xE2, CHR 0x9C, CHR 0x85]\<rparr>)"

subsection \<open>The specification's tables\<close>

text \<open>
  The decimal hour of a timestamp, and the two threshold tables as the specification
  words them: a list of rows, each a range of \<open>t\<close> (with the month condition of the
  Extra Off-Peak row) and the label of the bucket.
\<close>

definition decimal_hour :: "datetime \<Rightarrow> rat" where
  "decimal_hour now = of_int (hour now) + of_int (minute now) / 60"

type_synonym table = "((rat \<Rightarrow> bool) \<times> string) list"

definition spec_weekend_holiday_table :: table where
  "spec_weekend_holiday_table =
     [(\<lambda>t. t < 14, ''Super Off-Peak (Weekend/Holiday)''),
      (\<lambda>t. 14 \<le> t \<and> t < 16, ''Off-Peak (Weekend/Holiday)''),
      (\<lambda>t. 16 \<le> t \<and> t < 21, ''On-Peak (Weekend/Holiday)''),
      (\<lambda>t. 21 \<le> t, ''Off-Peak (Weekend/Holiday)'')]"

definition spec_weekday_table :: "int \<Rightarrow> table" where
  "spec_weekday_table m =
     [(\<lambda>t. t < 6, ''Super Off-Peak (Weekday)''),
      (\<lambda>t. 6 \<le> t \<and> t < 16 \<and> m \<in> {3, 4} \<and> 10 \<le> t \<and> t < 14,
         ''Extra Off-Peak (Mar/Apr, Weekday)''),
      (\<lambda>t. 6 \<le> t \<and> t < 16 \<and> \<not> (m \<in> {3, 4} \<and> 10 \<le> t \<and> t < 14),
         ''Off-Peak (Weekday)''),
      (\<lambda>t. 16 \<le> t \<and> t < 21, ''On-Peak (Weekday)''),
      (\<lambda>t. 21 \<le> t, ''Off-Peak (Weekday)'')]"

text \<open>The labels of the rows of a table whose range holds \<open>t\<close>, in table order.\<close>

definition matching :: "table \<Rightarrow> rat \<Rightarrow> string list" where
  "matching tab t = map snd (filter (\<lambda>row. fst row t) tab)"

text \<open>The day-type: the weekend table applies on Saturday, Sunday and holidays.\<close>

definition spec_table :: "bool \<Rightarrow> datetime \<Rightarrow> table" where
  "spec_table isHoliday now =
     (if weekday now = 5 \<or> weekday now = 6 \<or> isHoliday
      then spec_weekend_holiday_table
      else spec_weekday_table (month now))"

text \<open>Every label that \<open>get_tou_bucket\<close> has a \<open>return\<close> for.\<close>

definition bucket_labels :: "string list" where
  "bucket_labels =
     [''Super Off-Peak (Weekend/Holiday)'', ''Off-Peak (Weekend/Holiday)'',
      ''On-Peak (Weekend/Holiday)'', ''Super Off-Peak (Weekday)'',
      ''Extra Off-Peak (Mar/Apr, Weekday)'', ''Off-Peak (Weekday)'',
      ''On-Peak (Weekday)'']"

subsection \<open>Sample holiday packages\<close>

text \<open>
  Three behaviours of the package, used as concrete inputs: the fixed-date federal
  holidays of a year (New Year's Day, Independence Day, Christmas Day), a calendar with
  no holiday, and a package that raises.
\<close>

definition fixed_date_holidays :: holiday_package where
  "fixed_date_holidays y = Inr {(y, 1, 1), (y, 7, 4), (y, 12, 25)}"

definition no_holidays :: holiday_package where
  "no_holidays y = Inr {}"

definition package_unavailable :: holiday_package where
  "package_unavailable y = Inl HolidayLookupError"

section \<open>Helper lemmas\<close>

lemma str_contains_sublist: "str_contains sub s \<longleftrightarrow> sublist sub s"
  by (induction s) (simp_all add: sublist_Cons_right)

lemma weekend_partition: "length (matching spec_weekend_holiday_table t) = 1"
  by (simp add: matching_def spec_weekend_holiday_table_def)

lemma weekday_partition: "length (matching (spec_weekday_table m) t) = 1"
  by (simp add: matching_def spec_weekday_table_def)

lemma weekend_logic:
  assumes "weekday now \<ge> 5 \<or> is_holiday US now = Inr True"
  shows "get_tou_bucket US now =
     Inr (if decimal_hour now < 14 then ''Super Off-Peak (Weekend/Holiday)''
          else if decimal_hour now < 16 then ''Off-Peak (Weekend/Holiday)''
          else if decimal_hour now < 21 then ''On-Peak (Weekend/Holiday)''
          else ''Off-Peak (Weekend/Holiday)'')"
  using assms by (auto simp: get_tou_bucket_def decimal_hour_def Let_def)

lemma weekday_logic:
  assumes "weekday now < 5" and "is_holiday US now = Inr False"
  shows "get_tou_bucket US now =
     Inr (if decimal_hour now < 6 then ''Super Off-Peak (Weekday)''
          else if decimal_hour now < 16 then
            (if month now \<in> {3, 4} \<and> 10 \<le> decimal_hour now \<and> decimal_hour now < 14
             then ''Extra Off-Peak (Mar/Apr, Weekday)'' else ''Off-Peak (Weekday)'')
          else if decimal_hour now < 21 then ''On-Peak (Weekday)''
          else ''Off-Peak (Weekday)'')"
  using assms by (simp add: get_tou_bucket_def decimal_hour_def Let_def)

lemma matching_weekend:
  "matching spec_weekend_holiday_table t =
     [if t < 14 then ''Super Off-Peak (Weekend/Holiday)''
      else if t < 16 then ''Off-Peak (Weekend/Holiday)''
      else if t < 21 then ''On-Peak (Weekend/Holiday)''
      else ''Off-Peak (Weekend/Holiday)'']"
  by (simp add: matching_def spec_weekend_holiday_table_def)

lemma matching_weekday:
  "matching (spec_weekday_table m) t =
     [if t < 6 then ''Super Off-Peak (Weekday)''
      else if t < 16 then
        (if m \<in> {3, 4} \<and> 10 \<le> t \<and> t < 14
         then ''Extra Off-Peak (Mar/Apr, Weekday)'' else ''Off-Peak (Weekday)'')
      else if t < 21 then ''On-Peak (Weekday)''
      else ''Off-Peak (Weekday)'']"
  by (auto simp add: matching_def spec_weekday_table_def)

lemma bucket_cases:
  assumes "get_tou_bucket US now = Inr bucket"
  shows "(16 \<le> decimal_hour now \<and> decimal_hour now < 21 \<and>
            (bucket = ''On-Peak (Weekday)'' \<or> bucket = ''On-Peak (Weekend/Holiday)'')) \<or>
         (\<not> (16 \<le> decimal_hour now \<and> decimal_hour now < 21) \<and>
            (bucket = ''Super Off-Peak (Weekend/Holiday)'' \<or>
             bucket = ''Off-Peak (Weekend/Holiday)'' \<or>
             bucket = ''Super Off-Peak (Weekday)'' \<or>
             bucket = ''Extra Off-Peak (Mar/Apr, Weekday)'' \<or>
             bucket = ''Off-Peak (Weekday)''))"
proof (cases "weekday now \<ge> 5 \<or> is_holiday US now = Inr True")
  case True
  from assms have "bucket =
      (if decimal_hour now < 14 then ''Super Off-Peak (Weekend/Holiday)''
       else if decimal_hour now < 16 then ''Off-Peak (Weekend/Holiday)''
       else if decimal_hour now < 21 then ''On-Peak (Weekend/Holiday)''
       else ''Off-Peak (Weekend/Holiday)'')"
    unfolding weekend_logic [OF True] by simp
  then show ?thesis
    by (cases "decimal_hour now < 14"; cases "decimal_hour now < 16";
        cases "decimal_hour now < 21") simp_all
next
  case False
  then have w: "weekday now < 5" and n: "is_holiday US now \<noteq> Inr True"
    by auto
  from assms w obtain h where "is_holiday US now = Inr h"
    by (cases "is_holiday US now") (simp_all add: get_tou_bucket_def)
  with n have h: "is_holiday US now = Inr False"
    by auto
  from assms have "bucket =
      (if decimal_hour now < 6 then ''Super Off-Peak (Weekday)''
       else if decimal_hour now < 16 then
         (if month now \<in> {3, 4} \<and> 10 \<le> decimal_hour now \<and> decimal_hour now < 14
          then ''Extra Off-Peak (Mar/Apr, Weekday)'' else ''Off-Peak (Weekday)'')
       else if decimal_hour now < 21 then ''On-Peak (Weekday)''
       else ''Off-Peak (Weekday)'')"
    unfolding weekday_logic [OF w h] by simp
  then show ?thesis
    by (cases "decimal_hour now < 6"; cases "decimal_hour now < 16";
        cases "decimal_hour now < 21";
        cases "month now \<in> {3, 4} \<and> 10 \<le> decimal_hour now \<and> decimal_hour now < 14")
      simp_all
qed

section \<open>Claims\<close>

text \<open>
  C1. For every valid timestamp and every holiday answer, \<open>get_tou_bucket\<close> succeeds
  and returns one label, which is one of the program's bucket labels and the label of
  the only row of the day-type's table whose range holds \<open>t\<close>. The rows of either table
  partition the day: for every \<open>t\<close> (and every month) exactly one row matches.
\<close>

theorem classify_total_partition:
  assumes "valid_fields now" and "is_holiday US now = Inr isHoliday"
  shows "(\<exists>l. get_tou_bucket US now = Inr l \<and> l \<in> set bucket_labels \<and>
              matching (spec_table isHoliday now) (decimal_hour now) = [l]) \<and>
         (\<forall>t m. length (matching spec_weekend_holiday_table t) = 1 \<and>
                length (matching (spec_weekday_table m) t) = 1)"
proof (intro conjI allI)
  show "\<exists>l. get_tou_bucket US now = Inr l \<and> l \<in> set bucket_labels \<and>
              matching (spec_table isHoliday now) (decimal_hour now) = [l]"
  proof (cases "weekday now \<ge> 5 \<or> isHoliday")
    case True
    then have w: "weekday now \<ge> 5 \<or> is_holiday US now = Inr True"
      using assms(2) by auto
    from True assms(1) have tab: "spec_table isHoliday now = spec_weekend_holiday_table"
      by (auto simp: spec_table_def valid_fields_def)
    show ?thesis
      unfolding weekend_logic [OF w] tab matching_weekend
      by (simp add: bucket_labels_def)
  next
    case False
    then have w: "weekday now < 5" and h: "is_holiday US now = Inr False"
      using assms(2) by auto
    from False have tab: "spec_table isHoliday now = spec_weekday_table (month now)"
      by (auto simp: spec_table_def)
    show ?thesis
      unfolding weekday_logic [OF w h] tab matching_weekday
      by (simp add: bucket_labels_def)
  qed
qed (simp_all add: weekend_partition weekday_partition)

theorem classify_total_partition_witness:
  "valid_fields \<lparr>year = 2025, month = 3, day = 5, hour = 10, minute = 0, weekday = 2\<rparr> \<and>
   is_holiday fixed_date_holidays
     \<lparr>year = 2025, month = 3, day = 5, hour = 10, minute = 0, weekday = 2\<rparr> = Inr False \<and>
   get_tou_bucket fixed_date_holidays
     \<lparr>year = 2025, month = 3, day = 5, hour = 10, minute = 0, weekday = 2\<rparr>
     = Inr ''Extra Off-Peak (Mar/Apr, Weekday)'' \<and>
   ''Extra Off-Peak (Mar/Apr, Weekday)'' \<in> set bucket_labels \<and>
   matching
     (spec_table False \<lparr>year = 2025, month = 3, day = 5, hour = 10, minute = 0, weekday = 2\<rparr>)
     (decimal_hour \<lparr>year = 2025, month = 3, day = 5, hour = 10, minute = 0, weekday = 2\<rparr>)
     = [''Extra Off-Peak (Mar/Apr, Weekday)'']"
proof -
  let ?now = "\<lparr>year = 2025, month = 3, day = 5, hour = 10, minute = 0, weekday = 2\<rparr>"
  have v: "valid_fields ?now"
    by (simp add: valid_fields_def)
  have h: "is_holiday fixed_date_holidays ?now = Inr False"
    by (simp add: is_holiday_def fixed_date_holidays_def date_def)
  from classify_total_partition [OF v h] obtain l
    where l: "get_tou_bucket fixed_date_holidays ?now = Inr l" "l \<in> set bucket_labels"
      "matching (spec_table False ?now) (decimal_hour ?now) = [l]"
    by blast
  have "get_tou_bucket fixed_date_holidays ?now = Inr ''Extra Off-Peak (Mar/Apr, Weekday)''"
    by (simp add: get_tou_bucket_def is_holiday_def fixed_date_holidays_def date_def)
  with l(1) have "l = ''Extra Off-Peak (Mar/Apr, Weekday)''"
    by simp
  with l v h show ?thesis
    by simp
qed

text \<open>
  C2. With the oracle answering \<open>isHoliday\<close>, the returned label is the matching row of
  the Weekend/Holiday table if and only if the weekday is Saturday (5) or Sunday (6) or
  \<open>isHoliday\<close> is true, and the matching row of the Weekday table if and only if not.
  A Tuesday flagged as a holiday at 13:00 is Super Off-Peak (Weekend/Holiday).
\<close>

theorem day_type_selection:
  assumes "valid_fields now" and "is_holiday US now = Inr isHoliday"
  shows "\<exists>l. get_tou_bucket US now = Inr l \<and>
     ((weekday now = 5 \<or> weekday now = 6 \<or> isHoliday) \<longleftrightarrow>
        matching spec_weekend_holiday_table (decimal_hour now) = [l]) \<and>
     (\<not> (weekday now = 5 \<or> weekday now = 6 \<or> isHoliday) \<longleftrightarrow>
        matching (spec_weekday_table (month now)) (decimal_hour now) = [l]) \<and>
     (weekday now = 1 \<and> isHoliday \<and> hour now = 13 \<and> minute now = 0 \<longrightarrow>
        l = ''Super Off-Peak (Weekend/Holiday)'')"
proof (cases "weekday now \<ge> 5 \<or> isHoliday")
  case True
  then have w: "weekday now \<ge> 5 \<or> is_holiday US now = Inr True"
    using assms(2) by auto
  from True assms(1) have c: "weekday now = 5 \<or> weekday now = 6 \<or> isHoliday"
    by (auto simp: valid_fields_def)
  show ?thesis
    unfolding weekend_logic [OF w] matching_weekend matching_weekday
    using c by (auto simp: decimal_hour_def)
next
  case False
  then have w: "weekday now < 5" and h: "is_holiday US now = Inr False"
    using assms(2) by auto
  from False have c: "\<not> (weekday now = 5 \<or> weekday now = 6 \<or> isHoliday)"
    by auto
  show ?thesis
    unfolding weekday_logic [OF w h] matching_weekend matching_weekday
    using c by auto
qed

theorem day_type_selection_witness:
  "valid_fields \<lparr>year = 2028, month = 7, day = 4, hour = 13, minute = 0, weekday = 1\<rparr> \<and>
   is_holiday fixed_date_holidays
     \<lparr>year = 2028, month = 7, day = 4, hour = 13, minute = 0, weekday = 1\<rparr> = Inr True \<and>
   get_tou_bucket fixed_date_holidays
     \<lparr>year = 2028, month = 7, day = 4, hour = 13, minute = 0, weekday = 1\<rparr>
     = Inr ''Super Off-Peak (Weekend/Holiday)''"
proof -
  let ?now = "\<lparr>year = 2028, month = 7, day = 4, hour = 13, minute = 0, weekday = 1\<rparr>"
  have v: "valid_fields ?now"
    by (simp add: valid_fields_def)
  have h: "is_holiday fixed_date_holidays ?now = Inr True"
    by (simp add: is_holiday_def fixed_date_holidays_def date_def)
  from day_type_selection [OF v h] v h show ?thesis
    by auto
qed

text \<open>
  C3. On a Weekday day-type (Monday to Friday, not a holiday) the ranges are half-open,
  a boundary value belonging to the upper range: \<open>t < 6\<close> is Super Off-Peak,
  \<open>6 \<le> t < 16\<close> outside the March/April window is Off-Peak, \<open>16 \<le> t < 21\<close> is
  On-Peak and \<open>21 \<le> t\<close> is Off-Peak. So 5:59 is Super Off-Peak, 6:00 Off-Peak, 15:59
  outside March and April Off-Peak, 16:00 On-Peak, 20:59 On-Peak and 21:00 Off-Peak.
\<close>

theorem weekday_boundaries:
  assumes "weekday now < 5" and "is_holiday US now = Inr False"
  shows "(decimal_hour now < 6 \<longrightarrow>
            get_tou_bucket US now = Inr ''Super Off-Peak (Weekday)'') \<and>
         (6 \<le> decimal_hour now \<and> decimal_hour now < 16 \<and>
            \<not> (month now \<in> {3, 4} \<and> 10 \<le> decimal_hour now \<and> decimal_hour now < 14) \<longrightarrow>
            get_tou_bucket US now = Inr ''Off-Peak (Weekday)'') \<and>
         (16 \<le> decimal_hour now \<and> decimal_hour now < 21 \<longrightarrow>
            get_tou_bucket US now = Inr ''On-Peak (Weekday)'') \<and>
         (21 \<le> decimal_hour now \<longrightarrow>
            get_tou_bucket US now = Inr ''Off-Peak (Weekday)'') \<and>
         (hour now = 5 \<and> minute now = 59 \<longrightarrow>
            get_tou_bucket US now = Inr ''Super Off-Peak (Weekday)'') \<and>
         (hour now = 6 \<and> minute now = 0 \<longrightarrow>
            get_tou_bucket US now = Inr ''Off-Peak (Weekday)'') \<and>
         (hour now = 15 \<and> minute now = 59 \<and> month now \<notin> {3, 4} \<longrightarrow>
            get_tou_bucket US now = Inr ''Off-Peak (Weekday)'') \<and>
         (hour now = 16 \<and> minute now = 0 \<longrightarrow>
            get_tou_bucket US now = Inr ''On-Peak (Weekday)'') \<and>
         (hour now = 20 \<and> minute now = 59 \<longrightarrow>
            get_tou_bucket US now = Inr ''On-Peak (Weekday)'') \<and>
         (hour now = 21 \<and> minute now = 0 \<longrightarrow>
            get_tou_bucket US now = Inr ''Off-Peak (Weekday)'')"
  unfolding weekday_logic [OF assms]
  by (simp add: decimal_hour_def)

theorem weekday_boundaries_witness:
  "get_tou_bucket no_holidays
     \<lparr>year = 2025, month = 1, day = 6, hour = 5, minute = 59, weekday = 0\<rparr>
     = Inr ''Super Off-Peak (Weekday)'' \<and>
   get_tou_bucket no_holidays
     \<lparr>year = 2025, month = 1, day = 6, hour = 6, minute = 0, weekday = 0\<rparr>
     = Inr ''Off-Peak (Weekday)'' \<and>
   get_tou_bucket no_holidays
     \<lparr>year = 2025, month = 1, day = 6, hour = 15, minute = 59, weekday = 0\<rparr>
     = Inr ''Off-Peak (Weekday)'' \<and>
   get_tou_bucket no_holidays
     \<lparr>year = 2025, month = 1, day = 6, hour = 16, minute = 0, weekday = 0\<rparr>
     = Inr ''On-Peak (Weekday)'' \<and>
   get_tou_bucket no_holidays
     \<lparr>year = 2025, month = 1, day = 6, hour = 20, minute = 59, weekday = 0\<rparr>
     = Inr ''On-Peak (Weekday)'' \<and>
   get_tou_bucket no_holidays
     \<lparr>year = 2025, month = 1, day = 6, hour = 21, minute = 0, weekday = 0\<rparr>
     = Inr ''Off-Peak (Weekday)''"
proof -
  have h: "is_holiday no_holidays
      \<lparr>year = 2025, month = 1, day = 6, hour = h, minute = m, weekday = 0\<rparr> = Inr False"
    for h m
    by (simp add: is_holiday_def no_holidays_def)
  have w: "weekday \<lparr>year = 2025, month = 1, day = 6, hour = h, minute = m, weekday = 0\<rparr> < 5"
    for h m
    by simp
  show ?thesis
    using weekday_boundaries [OF w h, of 5 59] weekday_boundaries [OF w h, of 6 0]
      weekday_boundaries [OF w h, of 15 59] weekday_boundaries [OF w h, of 16 0]
      weekday_boundaries [OF w h, of 20 59] weekday_boundaries [OF w h, of 21 0]
    by simp
qed

text \<open>
  C4. On a Weekday day-type the result is Extra Off-Peak exactly when the month is March
  or April and \<open>10 \<le> t < 14\<close>; elsewhere in \<open>6 \<le> t < 16\<close> it is Off-Peak. A March
  Wednesday is Extra Off-Peak at 10:00 and Off-Peak at 9:59 and at 14:00; a January
  Wednesday at 10:00 is Off-Peak.
\<close>

theorem extra_off_peak_window:
  assumes "weekday now < 5" and "is_holiday US now = Inr False"
  shows "(get_tou_bucket US now = Inr ''Extra Off-Peak (Mar/Apr, Weekday)'' \<longleftrightarrow>
            (month now = 3 \<or> month now = 4) \<and>
            10 \<le> decimal_hour now \<and> decimal_hour now < 14) \<and>
         (6 \<le> decimal_hour now \<and> decimal_hour now < 16 \<and>
            \<not> ((month now = 3 \<or> month now = 4) \<and>
               10 \<le> decimal_hour now \<and> decimal_hour now < 14) \<longrightarrow>
            get_tou_bucket US now = Inr ''Off-Peak (Weekday)'') \<and>
         (weekday now = 2 \<and> month now = 3 \<and> hour now = 10 \<and> minute now = 0 \<longrightarrow>
            get_tou_bucket US now = Inr ''Extra Off-Peak (Mar/Apr, Weekday)'') \<and>
         (weekday now = 2 \<and> month now = 3 \<and> hour now = 9 \<and> minute now = 59 \<longrightarrow>
            get_tou_bucket US now = Inr ''Off-Peak (Weekday)'') \<and>
         (weekday now = 2 \<and> month now = 3 \<and> hour now = 14 \<and> minute now = 0 \<longrightarrow>
            get_tou_bucket US now = Inr ''Off-Peak (Weekday)'') \<and>
         (weekday now = 2 \<and> month now = 1 \<and> hour now = 10 \<and> minute now = 0 \<longrightarrow>
            get_tou_bucket US now = Inr ''Off-Peak (Weekday)'')"
  unfolding weekday_logic [OF assms]
  by (simp add: decimal_hour_def)

theorem extra_off_peak_window_witness:
  "get_tou_bucket fixed_date_holidays
     \<lparr>year = 2025, month = 3, day = 5, hour = 10, minute = 0, weekday = 2\<rparr>
     = Inr ''Extra Off-Peak (Mar/Apr, Weekday)'' \<and>
   get_tou_bucket fixed_date_holidays
     \<lparr>year = 2025, month = 3, day = 5, hour = 9, minute = 59, weekday = 2\<rparr>
     = Inr ''Off-Peak (Weekday)'' \<and>
   get_tou_bucket fixed_date_holidays
     \<lparr>year = 2025, month = 3, day = 5, hour = 14, minute = 0, weekday = 2\<rparr>
     = Inr ''Off-Peak (Weekday)'' \<and>
   get_tou_bucket fixed_date_holidays
     \<lparr>year = 2025, month = 1, day = 8, hour = 10, minute = 0, weekday = 2\<rparr>
     = Inr ''Off-Peak (Weekday)''"
proof -
  have h: "is_holiday fixed_date_holidays
      \<lparr>year = 2025, month = 3, day = 5, hour = h, minute = m, weekday = 2\<rparr> = Inr False"
    for h m
    by (simp add: is_holiday_def fixed_date_holidays_def date_def)
  have j: "is_holiday fixed_date_holidays
      \<lparr>year = 2025, month = 1, day = 8, hour = 10, minute = 0, weekday = 2\<rparr> = Inr False"
    by (simp add: is_holiday_def fixed_date_holidays_def date_def)
  have w: "weekday \<lparr>year = 2025, month = mo, day = d, hour = h, minute = m, weekday = 2\<rparr> < 5"
    for mo d h m
    by simp
  show ?thesis
    using extra_off_peak_window [OF w h, of 10 0] extra_off_peak_window [OF w h, of 9 59]
      extra_off_peak_window [OF w h, of 14 0] extra_off_peak_window [OF w j]
    by simp
qed

text \<open>
  C5. On a Weekend-or-Holiday day-type (Saturday, Sunday, or the oracle answers true)
  \<open>t < 14\<close> is Super Off-Peak, \<open>14 \<le> t < 16\<close> Off-Peak, \<open>16 \<le> t < 21\<close> On-Peak and
  \<open>21 \<le> t\<close> Off-Peak. A Saturday is Super Off-Peak at 13:59, Off-Peak at 14:00 and at
  15:59, and On-Peak at 16:00.
\<close>

theorem weekend_holiday_boundaries:
  assumes "weekday now = 5 \<or> weekday now = 6 \<or> is_holiday US now = Inr True"
  shows "(decimal_hour now < 14 \<longrightarrow>
            get_tou_bucket US now = Inr ''Super Off-Peak (Weekend/Holiday)'') \<and>
         (14 \<le> decimal_hour now \<and> decimal_hour now < 16 \<longrightarrow>
            get_tou_bucket US now = Inr ''Off-Peak (Weekend/Holiday)'') \<and>
         (16 \<le> decimal_hour now \<and> decimal_hour now < 21 \<longrightarrow>
            get_tou_bucket US now = Inr ''On-Peak (Weekend/Holiday)'') \<and>
         (21 \<le> decimal_hour now \<longrightarrow>
            get_tou_bucket US now = Inr ''Off-Peak (Weekend/Holiday)'') \<and>
         (weekday now = 5 \<and> hour now = 13 \<and> minute now = 59 \<longrightarrow>
            get_tou_bucket US now = Inr ''Super Off-Peak (Weekend/Holiday)'') \<and>
         (weekday now = 5 \<and> hour now = 14 \<and> minute now = 0 \<longrightarrow>
            get_tou_bucket US now = Inr ''Off-Peak (Weekend/Holiday)'') \<and>
         (weekday now = 5 \<and> hour now = 15 \<and> minute now = 59 \<longrightarrow>
            get_tou_bucket US now = Inr ''Off-Peak (Weekend/Holiday)'') \<and>
         (weekday now = 5 \<and> hour now = 16 \<and> minute now = 0 \<longrightarrow>
            get_tou_bucket US now = Inr ''On-Peak (Weekend/Holiday)'')"
proof -
  from assms have w: "weekday now \<ge> 5 \<or> is_holiday US now = Inr True"
    by auto
  show ?thesis
    unfolding weekend_logic [OF w]
    by (simp add: decimal_hour_def)
qed

theorem weekend_holiday_boundaries_witness:
  "get_tou_bucket no_holidays
     \<lparr>year = 2025, month = 3, day = 8, hour = 13, minute = 59, weekday = 5\<rparr>
     = Inr ''Super Off-Peak (Weekend/Holiday)'' \<and>
   get_tou_bucket no_holidays
     \<lparr>year = 2025, month = 3, day = 8, hour = 14, minute = 0, weekday = 5\<rparr>
     = Inr ''Off-Peak (Weekend/Holiday)'' \<and>
   get_tou_bucket no_holidays
     \<lparr>year = 2025, month = 3, day = 8, hour = 15, minute = 59, weekday = 5\<rparr>
     = Inr ''Off-Peak (Weekend/Holiday)'' \<and>
   get_tou_bucket no_holidays
     \<lparr>year = 2025, month = 3, day = 8, hour = 16, minute = 0, weekday = 5\<rparr>
     = Inr ''On-Peak (Weekend/Holiday)'' \<and>
   get_tou_bucket fixed_date_holidays
     \<lparr>year = 2025, month = 12, day = 25, hour = 22, minute = 30, weekday = 3\<rparr>
     = Inr ''Off-Peak (Weekend/Holiday)''"
proof -
  have w: "weekday \<lparr>year = 2025, month = 3, day = 8, hour = h, minute = m, weekday = 5\<rparr> = 5
      \<or> weekday \<lparr>year = 2025, month = 3, day = 8, hour = h, minute = m, weekday = 5\<rparr> = 6
      \<or> is_holiday no_holidays
          \<lparr>year = 2025, month = 3, day = 8, hour = h, minute = m, weekday = 5\<rparr> = Inr True"
    for h m
    by simp
  have x: "weekday \<lparr>year = 2025, month = 12, day = 25, hour = 22, minute = 30, weekday = 3\<rparr> = 5
      \<or> weekday \<lparr>year = 2025, month = 12, day = 25, hour = 22, minute = 30, weekday = 3\<rparr> = 6
      \<or> is_holiday fixed_date_holidays
          \<lparr>year = 2025, month = 12, day = 25, hour = 22, minute = 30, weekday = 3\<rparr> = Inr True"
    by (simp add: is_holiday_def fixed_date_holidays_def date_def)
  show ?thesis
    using weekend_holiday_boundaries [OF w, of 13 59] weekend_holiday_boundaries [OF w, of 14 0]
      weekend_holiday_boundaries [OF w, of 15 59] weekend_holiday_boundaries [OF w, of 16 0]
      weekend_holiday_boundaries [OF x]
    by (simp add: decimal_hour_def)
qed

text \<open>
  C6. \<open>get_theme_for_bucket\<close> gives the discouraging theme (colour \<open>#f0e5d8\<close>, the
  no-entry emoji) to every string that contains the program's On-Peak token
  \<open>On-Peak\<close>, and the encouraging theme (colour \<open>#e0f7fa\<close>, the check-mark emoji) to
  every other string. For a label returned by \<open>get_tou_bucket\<close> the theme is the
  discouraging one exactly when the label is one of the two On-Peak labels, that is
  exactly when \<open>16 \<le> t < 21\<close>.
\<close>

theorem theme_for_bucket:
  "(sublist ''On-Peak'' bucket \<longrightarrow>
      get_theme_for_bucket bucket =
        \<lparr>bg_color = ''#f0e5d8'', emoji = [CHR 0xF0, CHR 0x9F, CHR 0x9A, CHR 0xAB]\<rparr>) \<and>
   (\<not> sublist ''On-Peak'' bucket \<longrightarrow>
      get_theme_for_bucket bucket =
        \<lparr>bg_color = ''#e0f7fa'', emoji = [CHR 0xE2, CHR 0x9C, CHR 0x85]\<rparr>) \<and>
   (get_tou_bucket US now = Inr bucket \<longrightarrow>
      (get_theme_for_bucket bucket =
          \<lparr>bg_color = ''#f0e5d8'', emoji = [CHR 0xF0, CHR 0x9F, CHR 0x9A, CHR 0xAB]\<rparr>
        \<longleftrightarrow> bucket = ''On-Peak (Weekday)'' \<or> bucket = ''On-Peak (Weekend/Holiday)'') \<and>
      (get_theme_for_bucket bucket =
          \<lparr>bg_color = ''#f0e5d8'', emoji = [CHR 0xF0, CHR 0x9F, CHR 0x9A, CHR 0xAB]\<rparr>
        \<longleftrightarrow> 16 \<le> decimal_hour now \<and> decimal_hour now < 21))"
proof (intro conjI impI)
  assume "get_tou_bucket US now = Inr bucket"
  from bucket_cases [OF this]
  show "get_theme_for_bucket bucket =
          \<lparr>bg_color = ''#f0e5d8'', emoji = [CHR 0xF0, CHR 0x9F, CHR 0x9A, CHR 0xAB]\<rparr>
        \<longleftrightarrow> bucket = ''On-Peak (Weekday)'' \<or> bucket = ''On-Peak (Weekend/Holiday)''"
    and "get_theme_for_bucket bucket =
          \<lparr>bg_color = ''#f0e5d8'', emoji = [CHR 0xF0, CHR 0x9F, CHR 0x9A, CHR 0xAB]\<rparr>
        \<longleftrightarrow> 16 \<le> decimal_hour now \<and> decimal_hour now < 21"
    by (elim disjE conjE; simp add: get_theme_for_bucket_def)+
qed (simp_all add: get_theme_for_bucket_def str_contains_sublist)

theorem theme_for_bucket_witness:
  "get_theme_for_bucket ''On-Peak (Weekday)'' =
     \<lparr>bg_color = ''#f0e5d8'', emoji = [CHR 0xF0, CHR 0x9F, CHR 0x9A, CHR 0xAB]\<rparr> \<and>
   get_theme_for_bucket ''Super Off-Peak (Weekend/Holiday)'' =
     \<lparr>bg_color = ''#e0f7fa'', emoji = [CHR 0xE2, CHR 0x9C, CHR 0x85]\<rparr> \<and>
   get_theme_for_bucket ''Extra Off-Peak (Mar/Apr, Weekday)'' \<noteq>
     \<lparr>bg_color = ''#f0e5d8'', emoji = [CHR 0xF0, CHR 0x9F, CHR 0x9A, CHR 0xAB]\<rparr>"
proof -
  have a: "sublist ''On-Peak'' ''On-Peak (Weekday)''"
    by (simp add: str_contains_sublist [symmetric])
  have b: "\<not> sublist ''On-Peak'' ''Super Off-Peak (Weekend/Holiday)''"
    by (simp add: str_contains_sublist [symmetric])
  have c: "get_tou_bucket fixed_date_holidays
      \<lparr>year = 2025, month = 3, day = 5, hour = 10, minute = 0, weekday = 2\<rparr>
      = Inr ''Extra Off-Peak (Mar/Apr, Weekday)''"
    by (simp add: get_tou_bucket_def is_holiday_def fixed_date_holidays_def date_def)
  show ?thesis
    using a b c theme_for_bucket [of "''On-Peak (Weekday)''"]
      theme_for_bucket [of "''Super Off-Peak (Weekend/Holiday)''"]
      theme_for_bucket [of "''Extra Off-Peak (Mar/Apr, Weekday)''" fixed_date_holidays
        "\<lparr>year = 2025, month = 3, day = 5, hour = 10, minute = 0, weekday = 2\<rparr>"]
    by simp
qed

text \<open>
  C7, as stated, fails. \<open>is_holiday\<close> has no handler and \<open>get_tou_bucket\<close> supplies
  no default: on a Monday at 10:00, when the holiday package raises, the classification
  raises too, where the default answer "not a holiday" would give Off-Peak (Weekday).
\<close>

theorem holiday_default_counterexample:
  "is_holiday package_unavailable
     \<lparr>year = 2025, month = 1, day = 6, hour = 10, minute = 0, weekday = 0\<rparr>
     = Inl HolidayLookupError \<and>
   get_tou_bucket no_holidays
     \<lparr>year = 2025, month = 1, day = 6, hour = 10, minute = 0, weekday = 0\<rparr>
     = Inr ''Off-Peak (Weekday)'' \<and>
   get_tou_bucket package_unavailable
     \<lparr>year = 2025, month = 1, day = 6, hour = 10, minute = 0, weekday = 0\<rparr>
     = Inl HolidayLookupError \<and>
   get_tou_bucket package_unavailable
     \<lparr>year = 2025, month = 1, day = 6, hour = 10, minute = 0, weekday = 0\<rparr>
     \<noteq> Inr ''Off-Peak (Weekday)''"
  by (simp add: get_tou_bucket_def is_holiday_def package_unavailable_def no_holidays_def)

text \<open>
  C7, amended. When the holiday lookup raises, no default is supplied: for a Monday to
  Friday timestamp \<open>get_tou_bucket\<close> fails with the same error; for a Saturday or
  Sunday timestamp the lookup is not made and the Weekend/Holiday table applies.
\<close>

theorem missing_answer_propagates:
  assumes "is_holiday US now = Inl e"
  shows "(weekday now < 5 \<longrightarrow> get_tou_bucket US now = Inl e) \<and>
         (5 \<le> weekday now \<longrightarrow>
            map Inr (matching spec_weekend_holiday_table (decimal_hour now))
              = [get_tou_bucket US now])"
proof (intro conjI impI)
  assume "weekday now < 5"
  with assms show "get_tou_bucket US now = Inl e"
    by (simp add: get_tou_bucket_def)
next
  assume "5 \<le> weekday now"
  then have w: "weekday now \<ge> 5 \<or> is_holiday US now = Inr True"
    by simp
  show "map Inr (matching spec_weekend_holiday_table (decimal_hour now))
          = [get_tou_bucket US now]"
    unfolding weekend_logic [OF w] matching_weekend by simp
qed

theorem missing_answer_propagates_witness:
  "is_holiday package_unavailable
     \<lparr>year = 2025, month = 1, day = 6, hour = 10, minute = 0, weekday = 0\<rparr>
     = Inl HolidayLookupError \<and>
   get_tou_bucket package_unavailable
     \<lparr>year = 2025, month = 1, day = 6, hour = 10, minute = 0, weekday = 0\<rparr>
     = Inl HolidayLookupError \<and>
   is_holiday package_unavailable
     \<lparr>year = 2025, month = 1, day = 5, hour = 10, minute = 0, weekday = 6\<rparr>
     = Inl HolidayLookupError \<and>
   get_tou_bucket package_unavailable
     \<lparr>year = 2025, month = 1, day = 5, hour = 10, minute = 0, weekday = 6\<rparr>
     = Inr ''Super Off-Peak (Weekend/Holiday)''"
proof -
  have h: "is_holiday package_unavailable
      \<lparr>year = 2025, month = 1, day = d, hour = 10, minute = 0, weekday = w\<rparr>
      = Inl HolidayLookupError" for d w
    by (simp add: is_holiday_def package_unavailable_def)
  have m: "matching spec_weekend_holiday_table
      (decimal_hour \<lparr>year = 2025, month = 1, day = 5, hour = 10, minute = 0, weekday = 6\<rparr>)
      = [''Super Off-Peak (Weekend/Holiday)'']"
    by (simp add: matching_def spec_weekend_holiday_table_def decimal_hour_def)
  show ?thesis
    using missing_answer_propagates [OF h, of 6 0] missing_answer_propagates [OF h, of 5 6] h m
    by simp
qed

text \<open>
  C9. For a timestamp whose weekday is Saturday or Sunday the result is the same for
  every holiday package, hence the same whether the holiday answer is true or false.
\<close>

theorem weekend_ignores_oracle:
  assumes "weekday now = 5 \<or> weekday now = 6"
  shows "get_tou_bucket US1 now = get_tou_bucket US2 now"
  using assms by (auto simp: get_tou_bucket_def)

theorem weekend_ignores_oracle_witness:
  "is_holiday fixed_date_holidays
     \<lparr>year = 2026, month = 7, day = 4, hour = 12, minute = 15, weekday = 5\<rparr> = Inr True \<and>
   is_holiday no_holidays
     \<lparr>year = 2026, month = 7, day = 4, hour = 12, minute = 15, weekday = 5\<rparr> = Inr False \<and>
   get_tou_bucket fixed_date_holidays
     \<lparr>year = 2026, month = 7, day = 4, hour = 12, minute = 15, weekday = 5\<rparr> =
   get_tou_bucket no_holidays
     \<lparr>year = 2026, month = 7, day = 4, hour = 12, minute = 15, weekday = 5\<rparr>"
proof -
  let ?now = "\<lparr>year = 2026, month = 7, day = 4, hour = 12, minute = 15, weekday = 5\<rparr>"
  have w: "weekday ?now = 5 \<or> weekday ?now = 6"
    by simp
  have "is_holiday fixed_date_holidays ?now = Inr True"
    by (simp add: is_holiday_def fixed_date_holidays_def date_def)
  moreover have "is_holiday no_holidays ?now = Inr False"
    by (simp add: is_holiday_def no_holidays_def)
  ultimately show ?thesis
    using weekend_ignores_oracle [OF w, of fixed_date_holidays no_holidays] by simp
qed

text \<open>
  C10. From 16:00 on the two tables agree up to the day-type qualifier: for
  \<open>16 \<le> t < 21\<close> the label is \<open>On-Peak\<close> followed by the qualifier of the day-type,
  and for \<open>21 \<le> t\<close> it is \<open>Off-Peak\<close> followed by that qualifier.
\<close>

theorem evening_tables_agree:
  assumes "valid_fields now" and "is_holiday US now = Inr isHoliday"
  shows "(16 \<le> decimal_hour now \<and> decimal_hour now < 21 \<longrightarrow>
            get_tou_bucket US now =
              Inr (''On-Peak '' @ (if weekday now = 5 \<or> weekday now = 6 \<or> isHoliday
                                   then ''(Weekend/Holiday)'' else ''(Weekday)''))) \<and>
         (21 \<le> decimal_hour now \<longrightarrow>
            get_tou_bucket US now =
              Inr (''Off-Peak '' @ (if weekday now = 5 \<or> weekday now = 6 \<or> isHoliday
                                    then ''(Weekend/Holiday)'' else ''(Weekday)'')))"
proof (cases "weekday now \<ge> 5 \<or> isHoliday")
  case True
  then have w: "weekday now \<ge> 5 \<or> is_holiday US now = Inr True"
    using assms(2) by auto
  from True assms(1) have c: "weekday now = 5 \<or> weekday now = 6 \<or> isHoliday"
    by (auto simp: valid_fields_def)
  show ?thesis
    unfolding weekend_logic [OF w] using c by auto
next
  case False
  then have w: "weekday now < 5" and h: "is_holiday US now = Inr False"
    using assms(2) by auto
  from False have c: "\<not> (weekday now = 5 \<or> weekday now = 6 \<or> isHoliday)"
    by auto
  show ?thesis
    unfolding weekday_logic [OF w h] using c by auto
qed

theorem evening_tables_agree_witness:
  "get_tou_bucket fixed_date_holidays
     \<lparr>year = 2025, month = 3, day = 5, hour = 18, minute = 30, weekday = 2\<rparr>
     = Inr ''On-Peak (Weekday)'' \<and>
   get_tou_bucket fixed_date_holidays
     \<lparr>year = 2025, month = 7, day = 4, hour = 18, minute = 30, weekday = 4\<rparr>
     = Inr ''On-Peak (Weekend/Holiday)'' \<and>
   get_tou_bucket fixed_date_holidays
     \<lparr>year = 2025, month = 3, day = 5, hour = 21, minute = 0, weekday = 2\<rparr>
     = Inr ''Off-Peak (Weekday)'' \<and>
   get_tou_bucket fixed_date_holidays
     \<lparr>year = 2025, month = 7, day = 4, hour = 21, minute = 0, weekday = 4\<rparr>
     = Inr ''Off-Peak (Weekend/Holiday)''"
proof -
  have v: "valid_fields \<lparr>year = 2025, month = 3, day = 5, hour = 18, minute = 30, weekday = 2\<rparr>"
    "valid_fields \<lparr>year = 2025, month = 7, day = 4, hour = 18, minute = 30, weekday = 4\<rparr>"
    "valid_fields \<lparr>year = 2025, month = 3, day = 5, hour = 21, minute = 0, weekday = 2\<rparr>"
    "valid_fields \<lparr>year = 2025, month = 7, day = 4, hour = 21, minute = 0, weekday = 4\<rparr>"
    by (simp_all add: valid_fields_def)
  have h: "is_holiday fixed_date_holidays
      \<lparr>year = 2025, month = 3, day = 5, hour = h, minute = m, weekday = 2\<rparr> = Inr False"
    "is_holiday fixed_date_holidays
      \<lparr>year = 2025, month = 7, day = 4, hour = h, minute = m, weekday = 4\<rparr> = Inr True"
    for h m
    by (simp_all add: is_holiday_def fixed_date_holidays_def date_def)
  show ?thesis
    using evening_tables_agree [OF v(1) h(1)] evening_tables_agree [OF v(2) h(2)]
      evening_tables_agree [OF v(3) h(1)] evening_tables_agree [OF v(4) h(2)]
    by (simp add: decimal_hour_def)
qed

end
